theory Spec2Isabelle
  imports Complex_Main
begin

section \<open>PDF annotation sample: data model\<close>

text \<open>
  The program is the notebook \<^verbatim>\<open>docs/samples/python/example_pdf_annotation.ipynb\<close>.
  It has three code cells after the imports: cell 3 extracts text containers and
  characters and slices the characters by the analyzer's results, cell 5 inflates every
  slice into one bounding box, cell 7 builds one highlight dictionary per bounding box
  and stores the list on the first page.

  Coordinates are Python floats that the program only compares and selects
  (\<^verbatim>\<open>min\<close>, \<^verbatim>\<open>max\<close>) and never computes with, so they are modelled as
  \<^typ>\<open>real\<close>: the model covers the finite floats a PDF holds, not NaN.
\<close>

datatype py_error = IndexError

text \<open>A bounding box is the Python tuple \<^verbatim>\<open>(x0, y0, x1, y1)\<close>.\<close>

type_synonym rect = "real \<times> real \<times> real \<times> real"

text \<open>Tuple indexing \<^verbatim>\<open>a[0]\<close> .. \<^verbatim>\<open>a[3]\<close>.\<close>

fun idx0 :: "rect \<Rightarrow> real" where "idx0 (a0, a1, a2, a3) = a0"
fun idx1 :: "rect \<Rightarrow> real" where "idx1 (a0, a1, a2, a3) = a1"
fun idx2 :: "rect \<Rightarrow> real" where "idx2 (a0, a1, a2, a3) = a2"
fun idx3 :: "rect \<Rightarrow> real" where "idx3 (a0, a1, a2, a3) = a3"

text \<open>pdfminer's \<^verbatim>\<open>LTChar\<close>: one character of the page and its bounding box.\<close>

record LTChar =
  char_text :: string
  bbox :: rect

text \<open>
  Presidio's \<^verbatim>\<open>RecognizerResult\<close>, with the three attributes the notebook reads:
  \<^verbatim>\<open>start\<close>, \<^verbatim>\<open>end\<close> and \<^verbatim>\<open>entity_type\<close>. The offsets are Python ints.
\<close>

record RecognizerResult =
  entity_type :: string
  res_start :: int
  res_end :: int

text \<open>
  The layout tree that \<^verbatim>\<open>extract_pages\<close> yields, as far as the notebook inspects it:
  a page is a list of elements, some of them \<^verbatim>\<open>LTTextContainer\<close>s; a container has
  its text (what \<^verbatim>\<open>get_text()\<close> returns) and children, some of them
  \<^verbatim>\<open>LTTextLine\<close>s; a line has items, some of them \<^verbatim>\<open>LTChar\<close>s (the others are
  \<^verbatim>\<open>LTAnno\<close>, the spaces and newlines that the layout analysis inserts).
\<close>

datatype line_item = Char LTChar | LTAnno string

datatype container_child = LTTextLine "line_item list" | OtherChild

record text_container =
  get_text :: string
  children :: "container_child list"

datatype page_element = LTTextContainer text_container | OtherElement

type_synonym page_layout = "page_element list"

text \<open>The dictionaries that cell 3 and cell 5 append to their lists.\<close>

record analyzed_character_set =
  characters :: "LTChar list"
  result :: RecognizerResult

record analyzed_bounding_box =
  boundingBox :: rect
  bb_result :: RecognizerResult

text \<open>
  The highlight dictionary of cell 7. \<^verbatim>\<open>Type\<close>, \<^verbatim>\<open>Subtype\<close>, \<^verbatim>\<open>C\<close>,
  \<^verbatim>\<open>CA\<close> and \<^verbatim>\<open>T\<close> carry the prefix \<open>annot_\<close>.
\<close>

record highlight =
  annot_Type :: string
  annot_Subtype :: string
  QuadPoints :: "real list"
  Rect :: "real list"
  annot_C :: "real list"
  annot_CA :: real
  annot_T :: string

text \<open>
  A page of the pikepdf document: its \<^verbatim>\<open>Annots\<close> entry, absent or a list of
  annotations, and everything else of the page as one opaque value.
\<close>

record pdf_page =
  page_body :: string
  Annots :: "highlight list option"

type_synonym pdf = "pdf_page list"

section \<open>Cell 3: analyze the text and slice the characters\<close>

text \<open>
  Python's \<^verbatim>\<open>xs[start:stop]\<close> on a list: a negative index counts from the end,
  and both indices are then clamped into \<open>0 .. len(xs)\<close>; the slice is empty when the
  adjusted stop is not above the adjusted start. It never raises.
\<close>

definition adjust_index :: "nat \<Rightarrow> int \<Rightarrow> int" where
  "adjust_index n i = (if i < 0 then max (i + int n) 0 else min i (int n))"

definition py_slice :: "'a list \<Rightarrow> int \<Rightarrow> int \<Rightarrow> 'a list" where
  "py_slice xs start stop =
     (let lo = adjust_index (length xs) start;
          hi = adjust_index (length xs) stop
      in take (nat (hi - lo)) (drop (nat lo) xs))"

text \<open>
  \<^verbatim>\<open>str.isspace()\<close>: true when the string is not empty and all its characters are
  whitespace. A \<^typ>\<open>char\<close> is read as a code point below 256; Python's whitespace there
  is 9 to 13, 28 to 32, 133 and 160.
\<close>

definition whitespace :: "char \<Rightarrow> bool" where
  "whitespace c = (of_char c \<in> set [9, 10, 11, 12, 13, 28, 29, 30, 31, 32, 133, 160 :: nat])"

definition isspace :: "string \<Rightarrow> bool" where
  "isspace s = (s \<noteq> [] \<and> list_all whitespace s)"

text \<open>
  What cell 3 does that can be observed: the texts it passes to
  \<^verbatim>\<open>analyzer.analyze\<close>, what it prints, and the list \<^verbatim>\<open>analyzed_character_sets\<close>.
  The analyzer is a collaborator: a function from the text to the results.
\<close>

datatype printed = PrintText string | PrintResults "RecognizerResult list"

record analysis =
  analyze_calls :: "string list"
  console :: "printed list"
  analyzed_character_sets :: "analyzed_character_set list"

definition initial_analysis :: analysis where
  "initial_analysis = \<lparr>analyze_calls = [], console = [], analyzed_character_sets = []\<rparr>"

text \<open>The inner loop over a line: the items that are \<^verbatim>\<open>LTChar\<close>s.\<close>

fun line_characters :: "line_item list \<Rightarrow> LTChar list" where
  "line_characters [] = []"
| "line_characters (Char c # its) = c # line_characters its"
| "line_characters (LTAnno a # its) = line_characters its"

text \<open>The outer loop over a container: the children that are \<^verbatim>\<open>LTTextLine\<close>s.\<close>

fun grab_characters :: "container_child list \<Rightarrow> LTChar list" where
  "grab_characters [] = []"
| "grab_characters (LTTextLine its # chs) = line_characters its @ grab_characters chs"
| "grab_characters (OtherChild # chs) = grab_characters chs"

text \<open>The loop over the analyzer's results: one slice per result.\<close>

fun slice_results :: "LTChar list \<Rightarrow> RecognizerResult list \<Rightarrow> analyzed_character_set list" where
  "slice_results chars [] = []"
| "slice_results chars (r # rs) =
     \<lparr>characters = py_slice chars (res_start r) (res_end r), result = r\<rparr> # slice_results chars rs"

text \<open>
  The body of the loop over a page's elements. The analyzer is called before the
  \<^verbatim>\<open>isspace\<close> test, and the test guards the two prints only.
\<close>

fun process_element ::
  "(string \<Rightarrow> RecognizerResult list) \<Rightarrow> analysis \<Rightarrow> page_element \<Rightarrow> analysis" where
  "process_element analyze st OtherElement = st"
| "process_element analyze st (LTTextContainer tc) =
     (let text_to_anonymize = get_text tc;
          analyzer_results = analyze text_to_anonymize;
          out = (if isspace text_to_anonymize = False
                 then [PrintText text_to_anonymize, PrintResults analyzer_results] else []);
          chars = grab_characters (children tc)
      in \<lparr>analyze_calls = analyze_calls st @ [text_to_anonymize],
          console = console st @ out,
          analyzed_character_sets =
            analyzed_character_sets st @ slice_results chars analyzer_results\<rparr>)"

definition process_page ::
  "(string \<Rightarrow> RecognizerResult list) \<Rightarrow> analysis \<Rightarrow> page_layout \<Rightarrow> analysis" where
  "process_page analyze st page = foldl (process_element analyze) st page"

definition analyze_pages ::
  "(string \<Rightarrow> RecognizerResult list) \<Rightarrow> page_layout list \<Rightarrow> analysis" where
  "analyze_pages analyze pages = foldl (process_page analyze) initial_analysis pages"

section \<open>Cell 5: phrase bounding boxes\<close>

definition combine_rect :: "rect \<Rightarrow> rect \<Rightarrow> rect" where
  "combine_rect a b =
     (let startX = min (idx0 a) (idx0 b);
          startY = min (idx1 a) (idx1 b);
          endX = max (idx2 a) (idx2 b);
          endY = max (idx3 a) (idx3 b)
      in (startX, startY, endX, endY))"

text \<open>The inner loop: every character of the set, the first one included.\<close>

fun combine_loop :: "rect \<Rightarrow> LTChar list \<Rightarrow> rect" where
  "combine_loop acc [] = acc"
| "combine_loop acc (c # cs) = combine_loop (combine_rect acc (bbox c)) cs"

text \<open>
  \<^verbatim>\<open>completeBoundingBox\<close> for one character set. Indexing an empty list with
  \<^verbatim>\<open>[0]\<close> raises IndexError.
\<close>

fun completeBoundingBox :: "LTChar list \<Rightarrow> py_error + rect" where
  "completeBoundingBox [] = Inl IndexError"
| "completeBoundingBox (c # cs) = Inr (combine_loop (bbox c) (c # cs))"

text \<open>
  The outer loop. Nothing catches the IndexError: it ends the loop, and with it the
  cell, whatever character sets remain.
\<close>

fun bounding_boxes_loop ::
  "analyzed_bounding_box list \<Rightarrow> analyzed_character_set list
     \<Rightarrow> py_error + analyzed_bounding_box list" where
  "bounding_boxes_loop acc [] = Inr acc"
| "bounding_boxes_loop acc (s # ss) =
     (case completeBoundingBox (characters s) of
        Inl e \<Rightarrow> Inl e
      | Inr b \<Rightarrow> bounding_boxes_loop (acc @ [\<lparr>boundingBox = b, bb_result = result s\<rparr>]) ss)"

definition analyzed_bounding_boxes ::
  "analyzed_character_set list \<Rightarrow> py_error + analyzed_bounding_box list" where
  "analyzed_bounding_boxes sets = bounding_boxes_loop [] sets"

text \<open>
  The specification's \<open>reconcile\<close> is the path of one result through the two cells:
  the slice of cell 3, then the body of cell 5's loop.
\<close>

definition reconcile :: "LTChar list \<Rightarrow> RecognizerResult \<Rightarrow> py_error + analyzed_bounding_box" where
  "reconcile glyphs r =
     (case completeBoundingBox (py_slice glyphs (res_start r) (res_end r)) of
        Inl e \<Rightarrow> Inl e
      | Inr b \<Rightarrow> Inr \<lparr>boundingBox = b, bb_result = r\<rparr>)"

section \<open>Cell 7: highlight annotations\<close>

definition make_highlight :: "analyzed_bounding_box \<Rightarrow> highlight" where
  "make_highlight abb =
     (let b = boundingBox abb
      in \<lparr>annot_Type = ''/Annot'',
          annot_Subtype = ''/Highlight'',
          QuadPoints = [idx0 b, idx3 b,
                        idx2 b, idx3 b,
                        idx0 b, idx1 b,
                        idx2 b, idx1 b],
          Rect = [idx0 b, idx1 b, idx2 b, idx3 b],
          annot_C = [1, 0, 0],
          annot_CA = 0.5,
          annot_T = entity_type (bb_result abb)\<rparr>)"

fun annotations_loop :: "highlight list \<Rightarrow> analyzed_bounding_box list \<Rightarrow> highlight list" where
  "annotations_loop acc [] = acc"
| "annotations_loop acc (abb # abbs) = annotations_loop (acc @ [make_highlight abb]) abbs"

text \<open>
  \<^verbatim>\<open>pdf.pages[0].Annots = pdf.make_indirect(annotations)\<close>: the whole list goes to
  the first page, replacing the entry the page had. A document with no page raises
  IndexError.
\<close>

definition add_annotations :: "pdf \<Rightarrow> analyzed_bounding_box list \<Rightarrow> py_error + pdf" where
  "add_annotations doc abbs =
     (let annotations = annotations_loop [] abbs
      in case doc of
           [] \<Rightarrow> Inl IndexError
         | p # ps \<Rightarrow> Inr (p\<lparr>Annots := Some annotations\<rparr> # ps))"

text \<open>
  The three cells in sequence, on the layout pages that pdfminer reads from the file
  and the document that pikepdf opens from the same file. An error in a cell ends the
  run before the document is saved.
\<close>

definition annotate_pdf ::
  "(string \<Rightarrow> RecognizerResult list) \<Rightarrow> page_layout list \<Rightarrow> pdf \<Rightarrow> py_error + pdf" where
  "annotate_pdf analyze pages doc =
     (case analyzed_bounding_boxes (analyzed_character_sets (analyze_pages analyze pages)) of
        Inl e \<Rightarrow> Inl e
      | Inr abbs \<Rightarrow> add_annotations doc abbs)"


section \<open>Vocabulary of the properties and the specification's scenarios\<close>

text \<open>Containment of one rectangle in another, as the specification words it.\<close>

definition rect_contains :: "rect \<Rightarrow> rect \<Rightarrow> bool" where
  "rect_contains outer inner =
     (idx0 outer \<le> idx0 inner \<and> idx1 outer \<le> idx1 inner \<and>
      idx2 inner \<le> idx2 outer \<and> idx3 inner \<le> idx3 outer)"

text \<open>Scenario A: the glyphs of "Jane", side by side on one line.\<close>

definition jane_glyphs :: "LTChar list" where
  "jane_glyphs =
     [\<lparr>char_text = ''J'', bbox = (0, 0, 10, 10)\<rparr>,
      \<lparr>char_text = ''a'', bbox = (10, 0, 20, 10)\<rparr>,
      \<lparr>char_text = ''n'', bbox = (20, 0, 30, 10)\<rparr>,
      \<lparr>char_text = ''e'', bbox = (30, 0, 40, 10)\<rparr>]"

text \<open>Scenario B: the glyphs of "AB", the B set as a superscript.\<close>

definition ab_glyphs :: "LTChar list" where
  "ab_glyphs =
     [\<lparr>char_text = ''A'', bbox = (0, 0, 10, 10)\<rparr>,
      \<lparr>char_text = ''B'', bbox = (10, 5, 15, 12)\<rparr>]"

definition detection :: "string \<Rightarrow> int \<Rightarrow> int \<Rightarrow> RecognizerResult" where
  "detection label s e = \<lparr>entity_type = label, res_start = s, res_end = e\<rparr>"

text \<open>The text block of scenario A: one line holding the four glyphs.\<close>

definition jane_block :: text_container where
  "jane_block = \<lparr>get_text = ''Jane'', children = [LTTextLine (map Char jane_glyphs)]\<rparr>"

text \<open>A text block of one blank character.\<close>

definition blank_block :: text_container where
  "blank_block =
     \<lparr>get_text = '' '',
      children = [LTTextLine [Char \<lparr>char_text = '' '', bbox = (0, 0, 5, 10)\<rparr>]]\<rparr>"

text \<open>Stand-ins for the analyzer: one that finds the name, one that flags a first character
  whatever it is, one that reports an empty span before the name.\<close>

definition name_analyzer :: "string \<Rightarrow> RecognizerResult list" where
  "name_analyzer t = (if t = ''Jane'' then [detection ''PERSON'' 0 4] else [])"

definition first_char_analyzer :: "string \<Rightarrow> RecognizerResult list" where
  "first_char_analyzer t = (if t = [] then [] else [detection ''INITIAL'' 0 1])"

definition empty_span_analyzer :: "string \<Rightarrow> RecognizerResult list" where
  "empty_span_analyzer t =
     (if t = ''Jane'' then [detection ''EMPTY'' 2 2, detection ''PERSON'' 0 4] else [])"

text \<open>A document of two pages, none annotated.\<close>

definition two_page_pdf :: pdf where
  "two_page_pdf =
     [\<lparr>page_body = ''first page'', Annots = None\<rparr>,
      \<lparr>page_body = ''second page'', Annots = None\<rparr>]"

section \<open>Auxiliary facts\<close>

lemma combine_rect_tuple:
  "combine_rect (a0, a1, a2, a3) (b0, b1, b2, b3) =
     (min a0 b0, min a1 b1, max a2 b2, max a3 b3)"
  by (simp add: combine_rect_def)

lemma combine_rect_commute: "combine_rect a b = combine_rect b a"
  by (cases a, cases b) (simp add: combine_rect_tuple min.commute max.commute)

lemma combine_rect_assoc:
  "combine_rect (combine_rect a b) c = combine_rect a (combine_rect b c)"
  by (cases a, cases b, cases c) (simp add: combine_rect_tuple min.assoc max.assoc)

lemma combine_rect_idem: "combine_rect a a = a"
  by (cases a) (simp add: combine_rect_tuple)

lemma idx_combine_rect:
  "idx0 (combine_rect a b) = min (idx0 a) (idx0 b)"
  "idx1 (combine_rect a b) = min (idx1 a) (idx1 b)"
  "idx2 (combine_rect a b) = max (idx2 a) (idx2 b)"
  "idx3 (combine_rect a b) = max (idx3 a) (idx3 b)"
  by (simp_all add: combine_rect_def)

lemma rect_eq_iff:
  "(a = b) = (idx0 a = idx0 b \<and> idx1 a = idx1 b \<and> idx2 a = idx2 b \<and> idx3 a = idx3 b)"
  by (cases a, cases b) auto

lemma Min_insert_min:
  "finite S \<Longrightarrow> Min (insert (min a b) S) = Min (insert a (insert b S))"
  by (cases "S = {}") (simp_all add: min.assoc)

lemma Max_insert_max:
  "finite S \<Longrightarrow> Max (insert (max a b) S) = Max (insert a (insert b S))"
  by (cases "S = {}") (simp_all add: max.assoc)

lemma idx0_combine_loop:
  "idx0 (combine_loop acc cs) = Min (insert (idx0 acc) ((idx0 \<circ> bbox) ` set cs))"
  by (induction cs arbitrary: acc) (simp_all add: idx_combine_rect Min_insert_min)

lemma idx1_combine_loop:
  "idx1 (combine_loop acc cs) = Min (insert (idx1 acc) ((idx1 \<circ> bbox) ` set cs))"
  by (induction cs arbitrary: acc) (simp_all add: idx_combine_rect Min_insert_min)

lemma idx2_combine_loop:
  "idx2 (combine_loop acc cs) = Max (insert (idx2 acc) ((idx2 \<circ> bbox) ` set cs))"
  by (induction cs arbitrary: acc) (simp_all add: idx_combine_rect Max_insert_max)

lemma idx3_combine_loop:
  "idx3 (combine_loop acc cs) = Max (insert (idx3 acc) ((idx3 \<circ> bbox) ` set cs))"
  by (induction cs arbitrary: acc) (simp_all add: idx_combine_rect Max_insert_max)

text \<open>The bounding box of a non-empty character set, coordinate by coordinate.\<close>

lemma completeBoundingBox_Min_Max:
  assumes "cs \<noteq> []"
  shows "completeBoundingBox cs =
           Inr (Min ((idx0 \<circ> bbox) ` set cs), Min ((idx1 \<circ> bbox) ` set cs),
                Max ((idx2 \<circ> bbox) ` set cs), Max ((idx3 \<circ> bbox) ` set cs))"
proof -
  from assms obtain c cs' where cs: "cs = c # cs'"
    by (cases cs) auto
  have ins: "\<And>f. insert (f (bbox c)) ((f \<circ> bbox) ` set (c # cs')) = (f \<circ> bbox) ` set (c # cs')"
    by auto
  show ?thesis
    unfolding cs completeBoundingBox.simps
    by (simp only: rect_eq_iff sum.inject idx0.simps idx1.simps idx2.simps idx3.simps
        idx0_combine_loop idx1_combine_loop idx2_combine_loop idx3_combine_loop ins)
qed

lemma bounding_boxes_loop_empty_set:
  "s \<in> set sets \<Longrightarrow> characters s = [] \<Longrightarrow> bounding_boxes_loop acc sets = Inl IndexError"
proof (induction sets arbitrary: acc)
  case Nil
  then show ?case by simp
next
  case (Cons t ts)
  show ?case
  proof (cases "completeBoundingBox (characters t)")
    case (Inl e)
    then show ?thesis by (cases e) simp
  next
    case (Inr b)
    with Cons.prems have "s \<in> set ts"
      by auto
    with Cons.IH Cons.prems(2) Inr show ?thesis
      by simp
  qed
qed

lemma annotations_loop_append:
  "annotations_loop acc abbs = acc @ map make_highlight abbs"
  by (induction abbs arbitrary: acc) simp_all

lemma length_slice_results: "length (slice_results chars rs) = length rs"
  by (induction rs) simp_all


text \<open>Slices with indices in range, and the two ways a slice is clamped or empty.\<close>

lemma py_slice_in_range:
  "0 \<le> s \<Longrightarrow> s \<le> e \<Longrightarrow> e \<le> int (length xs)
     \<Longrightarrow> py_slice xs s e = take (nat (e - s)) (drop (nat s) xs)"
  by (simp add: py_slice_def adjust_index_def)

lemma py_slice_single:
  assumes "0 \<le> s" and "e = s + 1" and "e \<le> int (length xs)"
  shows "py_slice xs s e = [xs ! nat s]"
proof -
  from assms have lt: "nat s < length xs"
    by simp
  have "py_slice xs s e = take 1 (drop (nat s) xs)"
    using assms by (simp add: py_slice_in_range)
  also have "\<dots> = take 1 (xs ! nat s # drop (Suc (nat s)) xs)"
    by (simp only: Cons_nth_drop_Suc [OF lt])
  finally show ?thesis
    by simp
qed

lemma py_slice_same: "py_slice xs s s = []"
  by (simp add: py_slice_def)

lemma py_slice_stop_clamped:
  "int (length xs) < e \<Longrightarrow> py_slice xs s e = py_slice xs s (int (length xs))"
  by (simp add: py_slice_def adjust_index_def)

lemma py_slice_to_end:
  "0 \<le> s \<Longrightarrow> int (length xs) \<le> e \<Longrightarrow> py_slice xs s e = drop (nat s) xs"
  by (cases "s \<le> int (length xs)") (simp_all add: py_slice_def adjust_index_def)

lemma reconcile_nonempty:
  assumes "py_slice glyphs (res_start r) (res_end r) = sel" and "sel \<noteq> []"
  shows "reconcile glyphs r =
           Inr \<lparr>boundingBox =
                  (Min ((idx0 \<circ> bbox) ` set sel), Min ((idx1 \<circ> bbox) ` set sel),
                   Max ((idx2 \<circ> bbox) ` set sel), Max ((idx3 \<circ> bbox) ` set sel)),
                bb_result = r\<rparr>"
  using assms by (simp add: reconcile_def completeBoundingBox_Min_Max)

section \<open>The union rule\<close>

text \<open>
  C2. The union rule \<open>combine_rect\<close> is commutative and associative, and the reduction
  of cell 5 does not depend on the order or the grouping of the merges: two character
  sets with the same set of rectangles, in any order, get the same bounding box, and the
  bounding box of a concatenation is the union of the bounding boxes of its two parts.
\<close>

theorem combine_rect_order_and_grouping:
  "combine_rect a b = combine_rect b a \<and>
   combine_rect (combine_rect a b) c = combine_rect a (combine_rect b c) \<and>
   (set (map bbox cs) = set (map bbox cs') \<longrightarrow>
      completeBoundingBox cs = completeBoundingBox cs') \<and>
   (completeBoundingBox xs = Inr rx \<and> completeBoundingBox ys = Inr ry \<longrightarrow>
      completeBoundingBox (xs @ ys) = Inr (combine_rect rx ry))"
proof (intro conjI impI)
  show "combine_rect a b = combine_rect b a"
    by (rule combine_rect_commute)
  show "combine_rect (combine_rect a b) c = combine_rect a (combine_rect b c)"
    by (rule combine_rect_assoc)
next
  assume same: "set (map bbox cs) = set (map bbox cs')"
  show "completeBoundingBox cs = completeBoundingBox cs'"
  proof (cases "cs = []")
    case True
    with same show ?thesis by simp
  next
    case False
    with same have ne: "cs' \<noteq> []"
      by auto
    have img: "(f \<circ> bbox) ` set cs = (f \<circ> bbox) ` set cs'" for f :: "rect \<Rightarrow> real"
    proof -
      from same have "f ` (bbox ` set cs) = f ` (bbox ` set cs')"
        by simp
      then show ?thesis
        by (simp only: image_comp)
    qed
    show ?thesis
      by (simp only: completeBoundingBox_Min_Max [OF False]
          completeBoundingBox_Min_Max [OF ne] img)
  qed
next
  assume parts: "completeBoundingBox xs = Inr rx \<and> completeBoundingBox ys = Inr ry"
  then have nx: "xs \<noteq> []" and ny: "ys \<noteq> []"
    by auto
  then have nxy: "xs @ ys \<noteq> []"
    by simp
  from parts have rx: "rx = (Min ((idx0 \<circ> bbox) ` set xs), Min ((idx1 \<circ> bbox) ` set xs),
      Max ((idx2 \<circ> bbox) ` set xs), Max ((idx3 \<circ> bbox) ` set xs))"
    by (simp add: completeBoundingBox_Min_Max [OF nx])
  from parts have ry: "ry = (Min ((idx0 \<circ> bbox) ` set ys), Min ((idx1 \<circ> bbox) ` set ys),
      Max ((idx2 \<circ> bbox) ` set ys), Max ((idx3 \<circ> bbox) ` set ys))"
    by (simp add: completeBoundingBox_Min_Max [OF ny])
  have mn: "\<And>f. Min ((f \<circ> bbox) ` set (xs @ ys))
      = min (Min ((f \<circ> bbox) ` set xs)) (Min ((f \<circ> bbox) ` set ys))"
    using nx ny by (simp add: image_Un Min_Un)
  have mx: "\<And>f. Max ((f \<circ> bbox) ` set (xs @ ys))
      = max (Max ((f \<circ> bbox) ` set xs)) (Max ((f \<circ> bbox) ` set ys))"
    using nx ny by (simp add: image_Un Max_Un)
  show "completeBoundingBox (xs @ ys) = Inr (combine_rect rx ry)"
    by (simp only: completeBoundingBox_Min_Max [OF nxy] rx ry combine_rect_tuple mn mx)
qed

theorem combine_rect_order_and_grouping_witness:
  "combine_rect (0, 0, 10, 10) (10, 5, 15, 12) = combine_rect (10, 5, 15, 12) (0, 0, 10, 10) \<and>
   combine_rect (combine_rect (0, 0, 10, 10) (10, 5, 15, 12)) (20, 0, 30, 10)
     = combine_rect (0, 0, 10, 10) (combine_rect (10, 5, 15, 12) (20, 0, 30, 10)) \<and>
   set (map bbox ab_glyphs) = set (map bbox (rev ab_glyphs)) \<and>
   completeBoundingBox ab_glyphs = completeBoundingBox (rev ab_glyphs) \<and>
   completeBoundingBox ab_glyphs = Inr (0, 0, 15, 12) \<and>
   completeBoundingBox jane_glyphs = Inr (0, 0, 40, 10) \<and>
   completeBoundingBox (ab_glyphs @ jane_glyphs)
     = Inr (combine_rect (0, 0, 15, 12) (0, 0, 40, 10))"
proof -
  have h1: "set (map bbox ab_glyphs) = set (map bbox (rev ab_glyphs))"
    by simp
  have h2: "completeBoundingBox ab_glyphs = Inr (0, 0, 15, 12)"
    by (simp add: ab_glyphs_def combine_rect_tuple)
  have h3: "completeBoundingBox jane_glyphs = Inr (0, 0, 40, 10)"
    by (simp add: jane_glyphs_def combine_rect_tuple)
  show ?thesis
    using h1 h2 h3
      combine_rect_order_and_grouping [of "(0, 0, 10, 10)" "(10, 5, 15, 12)" "(20, 0, 30, 10)"
        ab_glyphs "rev ab_glyphs" ab_glyphs "(0, 0, 15, 12)" jane_glyphs "(0, 0, 40, 10)"]
    by (simp add: combine_rect_tuple)
qed


section \<open>Reconciling one span\<close>

text \<open>
  C6. The specification's scenarios. Over the span \<open>[0,4)\<close> the four glyphs of "Jane"
  reconcile to the rectangle \<open>(0,0,40,10)\<close>; over the span \<open>[0,2)\<close> the glyph A and the
  superscript B reconcile to \<open>(0,0,15,12)\<close>.
\<close>

theorem scenario_rectangles:
  "reconcile jane_glyphs (detection ''PERSON'' 0 4)
     = Inr \<lparr>boundingBox = (0, 0, 40, 10), bb_result = detection ''PERSON'' 0 4\<rparr> \<and>
   reconcile ab_glyphs (detection ''PERSON'' 0 2)
     = Inr \<lparr>boundingBox = (0, 0, 15, 12), bb_result = detection ''PERSON'' 0 2\<rparr>"
  by (simp add: reconcile_def py_slice_def adjust_index_def jane_glyphs_def ab_glyphs_def
      detection_def combine_rect_tuple)

text \<open>
  C7. Whenever a result selects at least one glyph, it reconciles to a bounding box, and
  that box contains the rectangle of every selected glyph: its \<open>x0\<close> and \<open>y0\<close> are at most
  the glyph's, its \<open>x1\<close> and \<open>y1\<close> at least the glyph's.
\<close>

theorem reconciled_contains_glyphs:
  assumes "g \<in> set (py_slice glyphs (res_start r) (res_end r))"
  shows "\<exists>abb. reconcile glyphs r = Inr abb \<and>
           idx0 (boundingBox abb) \<le> idx0 (bbox g) \<and> idx1 (boundingBox abb) \<le> idx1 (bbox g) \<and>
           idx2 (bbox g) \<le> idx2 (boundingBox abb) \<and> idx3 (bbox g) \<le> idx3 (boundingBox abb)"
proof -
  define sel where "sel = py_slice glyphs (res_start r) (res_end r)"
  with assms have g: "g \<in> set sel" and ne: "sel \<noteq> []"
    by auto
  have "Min ((idx0 \<circ> bbox) ` set sel) \<le> idx0 (bbox g)"
    and "Min ((idx1 \<circ> bbox) ` set sel) \<le> idx1 (bbox g)"
    and "idx2 (bbox g) \<le> Max ((idx2 \<circ> bbox) ` set sel)"
    and "idx3 (bbox g) \<le> Max ((idx3 \<circ> bbox) ` set sel)"
    using g by simp_all
  then show ?thesis
    by (simp add: reconcile_nonempty [OF sel_def [symmetric] ne])
qed

theorem reconciled_contains_glyphs_witness:
  "\<lparr>char_text = ''B'', bbox = (10, 5, 15, 12)\<rparr>
     \<in> set (py_slice ab_glyphs (res_start (detection ''PERSON'' 0 2))
              (res_end (detection ''PERSON'' 0 2))) \<and>
   (\<exists>abb. reconcile ab_glyphs (detection ''PERSON'' 0 2) = Inr abb \<and>
      idx0 (boundingBox abb) \<le> 10 \<and> idx1 (boundingBox abb) \<le> 5 \<and>
      15 \<le> idx2 (boundingBox abb) \<and> 12 \<le> idx3 (boundingBox abb))"
proof -
  have h: "\<lparr>char_text = ''B'', bbox = (10, 5, 15, 12)\<rparr>
     \<in> set (py_slice ab_glyphs (res_start (detection ''PERSON'' 0 2))
              (res_end (detection ''PERSON'' 0 2)))"
    by (simp add: py_slice_def adjust_index_def ab_glyphs_def detection_def)
  from reconciled_contains_glyphs [OF h] h show ?thesis
    by simp
qed

text \<open>
  C8. A span that selects exactly one glyph reconciles to that glyph's rectangle,
  unchanged; and a span with \<open>0 \<le> start\<close>, \<open>end = start + 1\<close> and
  \<open>end \<le> len(glyphs)\<close> selects exactly the glyph at \<open>start\<close>.
\<close>

theorem single_glyph_identity:
  "(py_slice glyphs (res_start r) (res_end r) = [g] \<longrightarrow>
      reconcile glyphs r = Inr \<lparr>boundingBox = bbox g, bb_result = r\<rparr>) \<and>
   (0 \<le> res_start r \<and> res_end r = res_start r + 1 \<and> res_end r \<le> int (length glyphs) \<longrightarrow>
      py_slice glyphs (res_start r) (res_end r) = [glyphs ! nat (res_start r)])"
proof (intro conjI impI)
  assume one: "py_slice glyphs (res_start r) (res_end r) = [g]"
  have "completeBoundingBox [g] = Inr (combine_rect (bbox g) (bbox g))"
    by simp
  then have "completeBoundingBox [g] = Inr (bbox g)"
    by (simp only: combine_rect_idem)
  with one show "reconcile glyphs r = Inr \<lparr>boundingBox = bbox g, bb_result = r\<rparr>"
    by (simp add: reconcile_def)
next
  assume "0 \<le> res_start r \<and> res_end r = res_start r + 1 \<and> res_end r \<le> int (length glyphs)"
  then show "py_slice glyphs (res_start r) (res_end r) = [glyphs ! nat (res_start r)]"
    by (simp add: py_slice_single)
qed

theorem single_glyph_identity_witness:
  "py_slice jane_glyphs (res_start (detection ''PERSON'' 2 3)) (res_end (detection ''PERSON'' 2 3))
     = [\<lparr>char_text = ''n'', bbox = (20, 0, 30, 10)\<rparr>] \<and>
   reconcile jane_glyphs (detection ''PERSON'' 2 3)
     = Inr \<lparr>boundingBox = (20, 0, 30, 10), bb_result = detection ''PERSON'' 2 3\<rparr> \<and>
   0 \<le> res_start (detection ''PERSON'' 2 3) \<and>
   res_end (detection ''PERSON'' 2 3) = res_start (detection ''PERSON'' 2 3) + 1 \<and>
   res_end (detection ''PERSON'' 2 3) \<le> int (length jane_glyphs) \<and>
   jane_glyphs ! nat (res_start (detection ''PERSON'' 2 3))
     = \<lparr>char_text = ''n'', bbox = (20, 0, 30, 10)\<rparr>"
proof -
  have h1: "0 \<le> res_start (detection ''PERSON'' 2 3) \<and>
      res_end (detection ''PERSON'' 2 3) = res_start (detection ''PERSON'' 2 3) + 1 \<and>
      res_end (detection ''PERSON'' 2 3) \<le> int (length jane_glyphs)"
    by (simp add: detection_def jane_glyphs_def)
  have n: "jane_glyphs ! nat (res_start (detection ''PERSON'' 2 3))
      = \<lparr>char_text = ''n'', bbox = (20, 0, 30, 10)\<rparr>"
    by (simp add: detection_def jane_glyphs_def numeral_2_eq_2)
  note t = single_glyph_identity [of jane_glyphs "detection ''PERSON'' 2 3"
      "\<lparr>char_text = ''n'', bbox = (20, 0, 30, 10)\<rparr>"]
  from t h1 n have sel: "py_slice jane_glyphs (res_start (detection ''PERSON'' 2 3))
      (res_end (detection ''PERSON'' 2 3)) = [\<lparr>char_text = ''n'', bbox = (20, 0, 30, 10)\<rparr>]"
    by simp
  with t have "reconcile jane_glyphs (detection ''PERSON'' 2 3)
     = Inr \<lparr>boundingBox = (20, 0, 30, 10), bb_result = detection ''PERSON'' 2 3\<rparr>"
    by simp
  with sel h1 n show ?thesis
    by simp
qed

text \<open>
  C10. For a non-empty selection the reconciled rectangle is the least one containing
  the selected glyphs' rectangles: its \<open>x0\<close> and \<open>y0\<close> are the minimum, its \<open>x1\<close> and
  \<open>y1\<close> the maximum, over the selected glyphs, and every rectangle that contains all
  the selected glyphs' rectangles contains it.
\<close>

theorem reconciled_is_least:
  assumes "py_slice glyphs (res_start r) (res_end r) = sel" and "sel \<noteq> []"
  shows "\<exists>b. reconcile glyphs r = Inr \<lparr>boundingBox = b, bb_result = r\<rparr> \<and>
           b = (Min ((idx0 \<circ> bbox) ` set sel), Min ((idx1 \<circ> bbox) ` set sel),
                Max ((idx2 \<circ> bbox) ` set sel), Max ((idx3 \<circ> bbox) ` set sel)) \<and>
           list_all (\<lambda>g. rect_contains b (bbox g)) sel \<and>
           (list_all (\<lambda>g. rect_contains outer (bbox g)) sel \<longrightarrow> rect_contains outer b)"
proof -
  define b where "b = (Min ((idx0 \<circ> bbox) ` set sel), Min ((idx1 \<circ> bbox) ` set sel),
      Max ((idx2 \<circ> bbox) ` set sel), Max ((idx3 \<circ> bbox) ` set sel))"
  have rec: "reconcile glyphs r = Inr \<lparr>boundingBox = b, bb_result = r\<rparr>"
    unfolding b_def by (rule reconcile_nonempty [OF assms])
  have ne: "set sel \<noteq> {}"
    using assms(2) by simp
  have inner: "list_all (\<lambda>g. rect_contains b (bbox g)) sel"
    by (simp add: list_all_iff rect_contains_def b_def)
  have least: "rect_contains outer b" if "list_all (\<lambda>g. rect_contains outer (bbox g)) sel"
    using that ne by (simp add: list_all_iff rect_contains_def b_def)
  from rec inner least show ?thesis
    unfolding b_def by blast
qed

theorem reconciled_is_least_witness:
  "py_slice ab_glyphs (res_start (detection ''PERSON'' 0 2)) (res_end (detection ''PERSON'' 0 2))
     = ab_glyphs \<and> ab_glyphs \<noteq> [] \<and>
   list_all (\<lambda>g. rect_contains (-1, 0, 15, 20) (bbox g)) ab_glyphs \<and>
   reconcile ab_glyphs (detection ''PERSON'' 0 2)
     = Inr \<lparr>boundingBox = (0, 0, 15, 12), bb_result = detection ''PERSON'' 0 2\<rparr> \<and>
   rect_contains (-1, 0, 15, 20) (0, 0, 15, 12)"
proof -
  have h1: "py_slice ab_glyphs (res_start (detection ''PERSON'' 0 2))
      (res_end (detection ''PERSON'' 0 2)) = ab_glyphs"
    by (simp add: py_slice_def adjust_index_def ab_glyphs_def detection_def)
  have h2: "ab_glyphs \<noteq> []"
    by (simp add: ab_glyphs_def)
  have h3: "list_all (\<lambda>g. rect_contains (-1, 0, 15, 20) (bbox g)) ab_glyphs"
    by (simp add: ab_glyphs_def rect_contains_def)
  have mm: "(Min ((idx0 \<circ> bbox) ` set ab_glyphs), Min ((idx1 \<circ> bbox) ` set ab_glyphs),
      Max ((idx2 \<circ> bbox) ` set ab_glyphs), Max ((idx3 \<circ> bbox) ` set ab_glyphs)) = (0, 0, 15, 12)"
    by (simp add: ab_glyphs_def)
  from reconciled_is_least [OF h1 h2, of "(-1, 0, 15, 20)"] h1 h2 h3 show ?thesis
    unfolding mm by auto
qed

section \<open>Highlight geometry\<close>

text \<open>
  C9. The highlight built from the rectangle \<open>(x0,y0,x1,y1)\<close> lists its corner points in
  the order \<open>(x0,y1)\<close>, \<open>(x1,y1)\<close>, \<open>(x0,y0)\<close>, \<open>(x1,y0)\<close>, and so does every highlight of
  the list that cell 7 builds, one per bounding box and in their order.
\<close>

theorem quad_points_order:
  "QuadPoints (make_highlight \<lparr>boundingBox = (x0, y0, x1, y1), bb_result = r\<rparr>)
     = [x0, y1, x1, y1, x0, y0, x1, y0] \<and>
   map QuadPoints (annotations_loop [] abbs)
     = map (\<lambda>abb. case boundingBox abb of
                     (x0, y0, x1, y1) \<Rightarrow> [x0, y1, x1, y1, x0, y0, x1, y0]) abbs"
proof
  show "QuadPoints (make_highlight \<lparr>boundingBox = (x0, y0, x1, y1), bb_result = r\<rparr>)
     = [x0, y1, x1, y1, x0, y0, x1, y0]"
    by (simp add: make_highlight_def)
  have "QuadPoints (make_highlight abb)
      = (case boundingBox abb of (x0, y0, x1, y1) \<Rightarrow> [x0, y1, x1, y1, x0, y0, x1, y0])" for abb
    by (cases "boundingBox abb") (simp add: make_highlight_def)
  then show "map QuadPoints (annotations_loop [] abbs)
     = map (\<lambda>abb. case boundingBox abb of
                     (x0, y0, x1, y1) \<Rightarrow> [x0, y1, x1, y1, x0, y0, x1, y0]) abbs"
    by (simp add: annotations_loop_append)
qed


section \<open>Spans that are out of range or empty\<close>

text \<open>
  C1, as the specification states it, fails: a result whose \<open>end\<close> is past the last
  glyph does not fail. Over the two glyphs of scenario B the span \<open>[0,5)\<close> reconciles
  to the box of both glyphs.
\<close>

theorem out_of_range_end_counterexample:
  "int (length ab_glyphs) < res_end (detection ''PERSON'' 0 5) \<and>
   reconcile ab_glyphs (detection ''PERSON'' 0 5)
     = Inr \<lparr>boundingBox = (0, 0, 15, 12), bb_result = detection ''PERSON'' 0 5\<rparr>"
  by (simp add: reconcile_def py_slice_def adjust_index_def ab_glyphs_def detection_def
      combine_rect_tuple)

text \<open>
  C1, amended. For a result with \<open>end > len(glyphs)\<close> the slicing step does not fail:
  the slice is the one that \<open>end = len(glyphs)\<close> gives, and when
  \<open>0 \<le> start < len(glyphs)\<close> the result reconciles to the bounding box of the glyphs
  from \<open>start\<close> to the last one.
\<close>

theorem out_of_range_end_is_clamped:
  assumes "int (length glyphs) < res_end r"
  shows "py_slice glyphs (res_start r) (res_end r)
           = py_slice glyphs (res_start r) (int (length glyphs)) \<and>
         (0 \<le> res_start r \<and> res_start r < int (length glyphs) \<longrightarrow>
            (\<exists>b. completeBoundingBox (drop (nat (res_start r)) glyphs) = Inr b \<and>
                 reconcile glyphs r = Inr \<lparr>boundingBox = b, bb_result = r\<rparr>))"
proof (intro conjI impI)
  show "py_slice glyphs (res_start r) (res_end r)
      = py_slice glyphs (res_start r) (int (length glyphs))"
    using assms by (rule py_slice_stop_clamped)
next
  assume inside: "0 \<le> res_start r \<and> res_start r < int (length glyphs)"
  with assms have sel: "py_slice glyphs (res_start r) (res_end r) = drop (nat (res_start r)) glyphs"
    by (simp add: py_slice_to_end)
  from inside have "nat (res_start r) < length glyphs"
    by linarith
  then have "drop (nat (res_start r)) glyphs \<noteq> []"
    by simp
  then obtain b where b: "completeBoundingBox (drop (nat (res_start r)) glyphs) = Inr b"
    by (auto simp: completeBoundingBox_Min_Max)
  then have "reconcile glyphs r = Inr \<lparr>boundingBox = b, bb_result = r\<rparr>"
    by (simp add: reconcile_def sel)
  with b show "\<exists>b. completeBoundingBox (drop (nat (res_start r)) glyphs) = Inr b \<and>
      reconcile glyphs r = Inr \<lparr>boundingBox = b, bb_result = r\<rparr>"
    by blast
qed

theorem out_of_range_end_is_clamped_witness:
  "int (length jane_glyphs) < res_end (detection ''PERSON'' 2 9) \<and>
   0 \<le> res_start (detection ''PERSON'' 2 9) \<and>
   res_start (detection ''PERSON'' 2 9) < int (length jane_glyphs) \<and>
   py_slice jane_glyphs (res_start (detection ''PERSON'' 2 9)) (res_end (detection ''PERSON'' 2 9))
     = py_slice jane_glyphs 2 4 \<and>
   reconcile jane_glyphs (detection ''PERSON'' 2 9)
     = Inr \<lparr>boundingBox = (20, 0, 40, 10), bb_result = detection ''PERSON'' 2 9\<rparr>"
proof -
  have h: "int (length jane_glyphs) < res_end (detection ''PERSON'' 2 9)"
    by (simp add: jane_glyphs_def detection_def)
  have i: "0 \<le> res_start (detection ''PERSON'' 2 9) \<and>
      res_start (detection ''PERSON'' 2 9) < int (length jane_glyphs)"
    by (simp add: jane_glyphs_def detection_def)
  have l: "int (length jane_glyphs) = 4" and s: "res_start (detection ''PERSON'' 2 9) = 2"
    by (simp_all add: jane_glyphs_def detection_def)
  have d: "completeBoundingBox (drop (nat (res_start (detection ''PERSON'' 2 9))) jane_glyphs)
      = Inr (20, 0, 40, 10)"
    by (simp add: jane_glyphs_def detection_def numeral_2_eq_2 combine_rect_tuple)
  from out_of_range_end_is_clamped [OF h] h i d show ?thesis
    by (auto simp: l s)
qed

text \<open>
  C3, as the specification states it, fails: a result that selects no glyph is not
  dropped. In the block of scenario A, an analyzer that reports the empty span \<open>[2,2)\<close>
  and then the name ends cell 5 with IndexError, where the name alone gives its
  bounding box.
\<close>

theorem empty_span_counterexample:
  "py_slice jane_glyphs (res_start (detection ''EMPTY'' 2 2)) (res_end (detection ''EMPTY'' 2 2)) = [] \<and>
   analyzed_bounding_boxes (analyzed_character_sets
       (process_element empty_span_analyzer initial_analysis (LTTextContainer jane_block)))
     = Inl IndexError \<and>
   analyzed_bounding_boxes (analyzed_character_sets
       (process_element name_analyzer initial_analysis (LTTextContainer jane_block)))
     = Inr [\<lparr>boundingBox = (0, 0, 40, 10), bb_result = detection ''PERSON'' 0 4\<rparr>]"
  by (simp add: analyzed_bounding_boxes_def initial_analysis_def jane_block_def jane_glyphs_def
      empty_span_analyzer_def name_analyzer_def detection_def py_slice_def adjust_index_def
      combine_rect_tuple Let_def)

text \<open>
  C3, amended. A result with \<open>start = end\<close> selects no glyph; a result that selects no
  glyph fails to reconcile, with IndexError, and yields no bounding box; and one
  character set without characters anywhere in the list ends cell 5 with that error, so
  that no bounding box comes out of it for any result.
\<close>

theorem empty_span_raises_and_aborts:
  "(res_start r = res_end r \<longrightarrow> py_slice glyphs (res_start r) (res_end r) = []) \<and>
   (py_slice glyphs (res_start r) (res_end r) = [] \<longrightarrow> reconcile glyphs r = Inl IndexError) \<and>
   (s \<in> set sets \<and> characters s = [] \<longrightarrow> analyzed_bounding_boxes sets = Inl IndexError)"
proof (intro conjI impI)
  assume "res_start r = res_end r"
  then show "py_slice glyphs (res_start r) (res_end r) = []"
    by (simp add: py_slice_same)
next
  assume "py_slice glyphs (res_start r) (res_end r) = []"
  then show "reconcile glyphs r = Inl IndexError"
    by (simp add: reconcile_def)
next
  assume "s \<in> set sets \<and> characters s = []"
  then show "analyzed_bounding_boxes sets = Inl IndexError"
    unfolding analyzed_bounding_boxes_def by (blast intro: bounding_boxes_loop_empty_set)
qed

theorem empty_span_raises_and_aborts_witness:
  "res_start (detection ''EMPTY'' 2 2) = res_end (detection ''EMPTY'' 2 2) \<and>
   py_slice jane_glyphs (res_start (detection ''EMPTY'' 2 2)) (res_end (detection ''EMPTY'' 2 2)) = [] \<and>
   reconcile jane_glyphs (detection ''EMPTY'' 2 2) = Inl IndexError \<and>
   \<lparr>characters = [], result = detection ''EMPTY'' 2 2\<rparr>
     \<in> set (slice_results jane_glyphs [detection ''PERSON'' 0 4, detection ''EMPTY'' 2 2]) \<and>
   characters \<lparr>characters = [], result = detection ''EMPTY'' 2 2\<rparr> = [] \<and>
   analyzed_bounding_boxes
     (slice_results jane_glyphs [detection ''PERSON'' 0 4, detection ''EMPTY'' 2 2])
     = Inl IndexError"
proof -
  have h1: "res_start (detection ''EMPTY'' 2 2) = res_end (detection ''EMPTY'' 2 2)"
    by (simp add: detection_def)
  have h2: "\<lparr>characters = [], result = detection ''EMPTY'' 2 2\<rparr>
     \<in> set (slice_results jane_glyphs [detection ''PERSON'' 0 4, detection ''EMPTY'' 2 2])"
    by (simp add: py_slice_same h1)
  have h3: "characters \<lparr>characters = [], result = detection ''EMPTY'' 2 2\<rparr> = []"
    by simp
  from empty_span_raises_and_aborts [of "detection ''EMPTY'' 2 2" jane_glyphs
      "\<lparr>characters = [], result = detection ''EMPTY'' 2 2\<rparr>"
      "slice_results jane_glyphs [detection ''PERSON'' 0 4, detection ''EMPTY'' 2 2]"]
    h1 h2 h3
  show ?thesis
    by blast
qed

section \<open>Whitespace blocks\<close>

text \<open>
  C4, as the specification states it, fails: the analyzer is called on a block of
  whitespace, and its results are used. A block of one blank, with an analyzer that flags
  the first character of any text, gets a highlight.
\<close>

theorem whitespace_block_counterexample:
  "isspace (get_text blank_block) \<and>
   analyze_calls (process_element first_char_analyzer initial_analysis (LTTextContainer blank_block))
     = ['' ''] \<and>
   annotate_pdf first_char_analyzer [[LTTextContainer blank_block]]
       [\<lparr>page_body = ''first page'', Annots = None\<rparr>]
     = Inr [\<lparr>page_body = ''first page'',
             Annots = Some [\<lparr>annot_Type = ''/Annot'', annot_Subtype = ''/Highlight'',
                              QuadPoints = [0, 10, 5, 10, 0, 0, 5, 0], Rect = [0, 0, 5, 10],
                              annot_C = [1, 0, 0], annot_CA = 0.5, annot_T = ''INITIAL''\<rparr>]\<rparr>]"
  by (simp add: isspace_def whitespace_def blank_block_def first_char_analyzer_def
      initial_analysis_def annotate_pdf_def analyze_pages_def process_page_def
      analyzed_bounding_boxes_def add_annotations_def make_highlight_def detection_def
      py_slice_def adjust_index_def combine_rect_tuple Let_def)

text \<open>
  C4, amended. On a block whose text is entirely whitespace the analyzer is called with
  that text like on any other block, and every result it returns gives one character
  set, so the block yields nothing when the analyzer returns no result; the whitespace
  test only keeps the text and the results from being printed.
\<close>

theorem whitespace_block_is_analyzed:
  assumes "isspace (get_text tc)"
  shows "process_element analyze st (LTTextContainer tc) =
           \<lparr>analyze_calls = analyze_calls st @ [get_text tc],
            console = console st,
            analyzed_character_sets = analyzed_character_sets st @
              slice_results (grab_characters (children tc)) (analyze (get_text tc))\<rparr> \<and>
         length (analyzed_character_sets (process_element analyze st (LTTextContainer tc)))
           = length (analyzed_character_sets st) + length (analyze (get_text tc))"
  using assms by (simp add: Let_def length_slice_results)

theorem whitespace_block_is_analyzed_witness:
  "isspace (get_text blank_block) \<and>
   process_element name_analyzer initial_analysis (LTTextContainer blank_block)
     = \<lparr>analyze_calls = ['' ''], console = [], analyzed_character_sets = []\<rparr> \<and>
   length (analyzed_character_sets
       (process_element name_analyzer initial_analysis (LTTextContainer blank_block))) = 0"
proof -
  have h: "isspace (get_text blank_block)"
    by (simp add: isspace_def whitespace_def blank_block_def)
  have t: "get_text blank_block = '' ''" and a: "name_analyzer '' '' = []"
    by (simp_all add: blank_block_def name_analyzer_def)
  from whitespace_block_is_analyzed [OF h, of name_analyzer initial_analysis] h show ?thesis
    by (simp add: t a initial_analysis_def Let_def)
qed

section \<open>Pages and their annotations\<close>

text \<open>
  C5. The annotations go to the first page, whichever page their glyphs are on: in a
  document of two pages with the name on the second, the highlight of the name is stored
  on the first page and the second page has no annotation.
\<close>

theorem annotations_all_on_first_page:
  "annotate_pdf name_analyzer [[OtherElement], [LTTextContainer jane_block]] two_page_pdf
     = Inr [\<lparr>page_body = ''first page'',
             Annots = Some [\<lparr>annot_Type = ''/Annot'', annot_Subtype = ''/Highlight'',
                              QuadPoints = [0, 10, 40, 10, 0, 0, 40, 0], Rect = [0, 0, 40, 10],
                              annot_C = [1, 0, 0], annot_CA = 0.5, annot_T = ''PERSON''\<rparr>]\<rparr>,
            \<lparr>page_body = ''second page'', Annots = None\<rparr>]"
  by (simp add: annotate_pdf_def analyze_pages_def process_page_def initial_analysis_def
      analyzed_bounding_boxes_def add_annotations_def make_highlight_def two_page_pdf_def
      jane_block_def jane_glyphs_def name_analyzer_def detection_def
      py_slice_def adjust_index_def combine_rect_tuple Let_def)

end
